theory Spec2Isabelle
  imports Complex_Main "HOL-Library.Log_Nat"
begin

section \<open>The ShoppyGlobe cart API (server.js) as a state-passing model\<close>

text \<open>
  The server keeps its state in three MongoDB collections and changes it only inside the
  request handlers of \<^verbatim>\<open>server.js\<close>. A handler is modelled as a function from the database
  and the request's parameters to the HTTP response and the database afterwards.

  Modelling conventions:
  \<^item> a JavaScript Number that holds a quantity, a stock level, a price or a rating is a
    rational (\<open>rat\<close>). The handlers compare such Numbers, which is exact, and add a
    requested quantity to a stored one. The model adds exactly; the code's addition of
    Numbers is exact on the integers of magnitude up to \<open>2 ^ 53\<close> whose sum is in that
    range too (\<open>safe_integer\<close> below), and every statement about a sum is made for such
    quantities only. Rounded sums, \<^verbatim>\<open>Infinity\<close> and \<^verbatim>\<open>NaN\<close> are not modelled;
  \<^item> a product id is an integer-valued Number (\<open>int\<close>), a MongoDB ObjectId a natural
    number, a date a natural number;
  \<^item> a string is a list of code units below 256;
  \<^item> the request body is JSON and carries numbers in \<open>productId\<close> and \<open>quantity\<close>, the
    product id an integer (a body with strings or other values there is not modelled);
  \<^item> \<^verbatim>\<open>authenticate\<close> has already run: a handler receives \<^verbatim>\<open>req.user._id\<close>;
  \<^item> the path parameter \<^verbatim>\<open>:id\<close> is a well-formed ObjectId;
  \<^item> the store is reachable: a query itself never throws. What the handlers' own code
    throws inside \<^verbatim>\<open>try\<close> (a schema validation error on \<^verbatim>\<open>save\<close>, reading \<^verbatim>\<open>stock\<close> of
    \<^verbatim>\<open>null\<close>) is modelled, and ends in the \<^verbatim>\<open>catch\<close> branch's response 500.
\<close>

subsection \<open>Schemas\<close>

type_synonym objectId = nat
type_synonym date = nat

text \<open>\<^verbatim>\<open>productSchema\<close>; the field \<^verbatim>\<open>id\<close> is named \<open>id'\<close> here.\<close>

record Product =
  id' :: int
  title :: string
  description :: string
  category :: string
  price :: rat
  rating :: rat
  stock :: rat

text \<open>\<^verbatim>\<open>cartItemSchema\<close>; \<open>oid\<close> is the document's \<^verbatim>\<open>_id\<close>.\<close>

record CartItem =
  oid :: objectId
  user :: objectId
  product :: int
  quantity :: rat
  addedAt :: date

record db =
  products :: "Product list"
  cartItems :: "CartItem list"

subsection \<open>Responses\<close>

text \<open>\<^verbatim>\<open>res.status(n).json({ error: msg })\<close>\<close>

datatype error = HttpError nat string

text \<open>
  The object \<^verbatim>\<open>{ ...item.toObject(), product }\<close>: the cart item's own fields, with the key
  \<^verbatim>\<open>product\<close> overwritten by the catalog document found for it (or \<^verbatim>\<open>null\<close>).
\<close>

record populatedItem =
  item_id :: objectId
  item_user :: objectId
  item_product :: "Product option"
  item_quantity :: rat
  item_addedAt :: date

datatype body =
    Items "populatedItem list"
  | MessageItem string populatedItem
  | Message string
  | Saved Product

datatype response = Response nat body

definition toObject_with :: "CartItem \<Rightarrow> Product option \<Rightarrow> populatedItem" where
  "toObject_with item p =
     \<lparr>item_id = oid item, item_user = user item, item_product = p,
      item_quantity = quantity item, item_addedAt = addedAt item\<rparr>"

subsection \<open>Queries and writes on the collections\<close>

text \<open>
  A collection is the list of its documents in insertion order; \<^verbatim>\<open>findOne\<close> returns the
  first document that matches.
\<close>

definition Product_findOne :: "Product list \<Rightarrow> int \<Rightarrow> Product option" where
  "Product_findOne ps i = find (\<lambda>p. id' p = i) ps"

text \<open>\<^verbatim>\<open>Product.findOne().sort('-id')\<close>: the document with the greatest id.\<close>

fun Product_findLast :: "Product list \<Rightarrow> Product option" where
  "Product_findLast [] = None"
| "Product_findLast (p # ps) =
     (case Product_findLast ps of
        None \<Rightarrow> Some p
      | Some m \<Rightarrow> if id' p < id' m then Some m else Some p)"

definition CartItem_find :: "CartItem list \<Rightarrow> objectId \<Rightarrow> CartItem list" where
  "CartItem_find cs u = filter (\<lambda>c. user c = u) cs"

definition CartItem_findOne :: "CartItem list \<Rightarrow> objectId \<Rightarrow> int \<Rightarrow> CartItem option" where
  "CartItem_findOne cs u p = find (\<lambda>c. user c = u \<and> product c = p) cs"

definition CartItem_findById :: "CartItem list \<Rightarrow> objectId \<Rightarrow> CartItem option" where
  "CartItem_findById cs i = find (\<lambda>c. oid c = i) cs"

text \<open>A new ObjectId differs from every \<^verbatim>\<open>_id\<close> in the collection.\<close>

definition new_ObjectId :: "CartItem list \<Rightarrow> objectId" where
  "new_ObjectId cs = Suc (fold max (map oid cs) 0)"

text \<open>The validators of \<^verbatim>\<open>cartItemSchema\<close>: \<^verbatim>\<open>quantity: { min: 1 }\<close>.\<close>

definition cartItemSchema_valid :: "CartItem \<Rightarrow> bool" where
  "cartItemSchema_valid c = (1 \<le> quantity c)"

text \<open>\<^verbatim>\<open>updateOne({ _id })\<close>: the first document with this \<^verbatim>\<open>_id\<close> is replaced.\<close>

fun updateOne :: "CartItem list \<Rightarrow> CartItem \<Rightarrow> CartItem list" where
  "updateOne [] d = []"
| "updateOne (c # cs) d = (if oid c = oid d then d # cs else c # updateOne cs d)"

text \<open>
  \<^verbatim>\<open>cartItem.save()\<close>. It throws (\<open>None\<close>) when a validator fails, when a new document's
  \<^verbatim>\<open>_id\<close> is taken, and when the document to update is no longer stored. A new document
  (\<open>isNew\<close>) is inserted at the end, a stored one is updated in place.
\<close>

definition CartItem_save :: "CartItem list \<Rightarrow> bool \<Rightarrow> CartItem \<Rightarrow> CartItem list option" where
  "CartItem_save cs isNew d =
     (if \<not> cartItemSchema_valid d then None
      else if isNew then (if oid d \<in> set (map oid cs) then None else Some (cs @ [d]))
      else (if oid d \<in> set (map oid cs) then Some (updateOne cs d) else None))"

text \<open>\<^verbatim>\<open>cartItem.deleteOne()\<close>: the first document with this \<^verbatim>\<open>_id\<close> is removed.\<close>

fun CartItem_deleteOne :: "CartItem list \<Rightarrow> CartItem \<Rightarrow> CartItem list" where
  "CartItem_deleteOne [] d = []"
| "CartItem_deleteOne (c # cs) d = (if oid c = oid d then cs else c # CartItem_deleteOne cs d)"

subsection \<open>Middleware \<^verbatim>\<open>validateCartItem\<close>\<close>

text \<open>
  \<^verbatim>\<open>parseInt(productId)\<close> reads the leading digits of the text of its argument, and is
  \<^verbatim>\<open>NaN\<close> (\<open>None\<close>) when there are none. The text of an integer-valued Number of magnitude
  below \<open>10 ^ 21\<close> is a plain digit string that reads back as the same Number. From
  \<open>10 ^ 21\<close> on the text is in exponent notation, \<^verbatim>\<open>d.ddde+n\<close>, written with the fewest
  digits that still round to the Number, and \<^verbatim>\<open>parseInt\<close> stops at the point or at
  \<^verbatim>\<open>e\<close>: the result is the first digit \<open>d\<close>.

  \<open>exponent_lead a\<close> is that digit for a Number \<open>a \<ge> 10 ^ 21\<close> of \<open>j + 1\<close> decimal digits
  (\<open>decimal_digits\<close>): with \<open>u\<close> the distance to
  the next Number above \<open>a\<close> and \<open>m\<close> the 53-bit significand, it is the first digit of \<open>a\<close>,
  unless the next one-digit decimal above \<open>a\<close> still rounds to \<open>a\<close> (it is nearer than
  \<open>u / 2\<close>, or at \<open>u / 2\<close> with \<open>m\<close> even), which is then the shortest text.
\<close>

function decimal_digits :: "int \<Rightarrow> nat" where
  "decimal_digits a = (if a < 10 then 1 else Suc (decimal_digits (a div 10)))"
  by pat_completeness auto
termination
  by (relation "measure nat") auto

declare decimal_digits.simps [simp del]

definition exponent_lead :: "int \<Rightarrow> int" where
  "exponent_lead a =
     (let j = decimal_digits a - 1;
          d = a div 10 ^ j;
          u = 2 ^ nat (bitlen a - 53);
          m = a div u;
          c = (d + 1) * 10 ^ j
      in if 2 * (c - a) < u \<or> (2 * (c - a) = u \<and> even m)
         then (if d = 9 then 1 else d + 1)
         else d)"

definition parseInt :: "int \<Rightarrow> int option" where
  "parseInt n = (if \<bar>n\<bar> < 10 ^ 21 then Some n else Some (sgn n * exponent_lead \<bar>n\<bar>))"

text \<open>
  \<^verbatim>\<open>!productId || !quantity\<close> holds for the number 0. The result \<open>Inr p\<close> is
  \<^verbatim>\<open>req.product = product; next()\<close>.
\<close>

definition validateCartItem :: "Product list \<Rightarrow> int \<Rightarrow> rat \<Rightarrow> error + Product" where
  "validateCartItem ps productId qty =
     (if productId = 0 \<or> qty = 0 then
        Inl (HttpError 400 ''Product ID and quantity are required'')
      else
        (case parseInt productId of
           None \<Rightarrow> Inl (HttpError 400 ''Invalid product ID'')
         | Some n \<Rightarrow>
             (if qty < 1 then Inl (HttpError 400 ''Quantity must be at least 1'')
              else
                (case Product_findOne ps n of
                   None \<Rightarrow> Inl (HttpError 404 ''Product not found'')
                 | Some p \<Rightarrow>
                     (if stock p < qty then
                        Inl (HttpError 400 ''Not enough stock available'')
                      else Inr p)))))"

subsection \<open>Cart routes\<close>

text \<open>\<^verbatim>\<open>app.get('/cart', authenticate, ...)\<close>\<close>

definition get_cart :: "db \<Rightarrow> objectId \<Rightarrow> (error + response) \<times> db" where
  "get_cart s uid =
     (let items = CartItem_find (cartItems s) uid;
          populatedItems =
            map (\<lambda>item. toObject_with item (Product_findOne (products s) (product item))) items
      in (Inr (Response 200 (Items populatedItems)), s))"

text \<open>
  The handler of \<^verbatim>\<open>app.post('/cart', ...)\<close>, run after \<^verbatim>\<open>validateCartItem\<close> called \<^verbatim>\<open>next()\<close>.
  It looks the cart item and the product up by the \<^verbatim>\<open>productId\<close> it was sent, not by
  \<^verbatim>\<open>parseInt(productId)\<close>. The sum \<^verbatim>\<open>cartItem.quantity += quantity\<close> is the exact one (see the
  conventions above).
\<close>

definition post_cart_handler ::
  "db \<Rightarrow> objectId \<Rightarrow> int \<Rightarrow> rat \<Rightarrow> date \<Rightarrow> (error + response) \<times> db" where
  "post_cart_handler s uid productId qty now =
     (let found = CartItem_findOne (cartItems s) uid productId;
          cartItem =
            (case found of
               Some c \<Rightarrow> c\<lparr>quantity := quantity c + qty\<rparr>
             | None \<Rightarrow>
                 \<lparr>oid = new_ObjectId (cartItems s), user = uid, product = productId,
                  quantity = qty, addedAt = now\<rparr>)
      in (case CartItem_save (cartItems s) (found = None) cartItem of
            None \<Rightarrow> (Inl (HttpError 500 ''Server error''), s)
          | Some cs \<Rightarrow>
              (Inr (Response 201
                 (MessageItem ''Product added to cart''
                    (toObject_with cartItem (Product_findOne (products s) productId)))),
               s\<lparr>cartItems := cs\<rparr>)))"

text \<open>\<^verbatim>\<open>app.post('/cart', authenticate, validateCartItem, ...)\<close>\<close>

definition post_cart ::
  "db \<Rightarrow> objectId \<Rightarrow> int \<Rightarrow> rat \<Rightarrow> date \<Rightarrow> (error + response) \<times> db" where
  "post_cart s uid productId qty now =
     (case validateCartItem (products s) productId qty of
        Inl e \<Rightarrow> (Inl e, s)
      | Inr _ \<Rightarrow> post_cart_handler s uid productId qty now)"

text \<open>
  \<^verbatim>\<open>app.put('/cart/:id', authenticate, ...)\<close>. Reading \<^verbatim>\<open>product.stock\<close> when
  \<^verbatim>\<open>Product.findOne\<close> returned \<^verbatim>\<open>null\<close> throws a TypeError inside \<^verbatim>\<open>try\<close>.
\<close>

definition put_cart :: "db \<Rightarrow> objectId \<Rightarrow> objectId \<Rightarrow> rat \<Rightarrow> (error + response) \<times> db" where
  "put_cart s uid i qty =
     (if qty = 0 \<or> qty < 1 then (Inl (HttpError 400 ''Quantity must be at least 1''), s)
      else
        (case CartItem_findById (cartItems s) i of
           None \<Rightarrow> (Inl (HttpError 404 ''Cart item not found''), s)
         | Some cartItem \<Rightarrow>
             (if user cartItem \<noteq> uid then
                (Inl (HttpError 403 ''Not authorized to update this cart item''), s)
              else
                (case Product_findOne (products s) (product cartItem) of
                   None \<Rightarrow> (Inl (HttpError 500 ''Server error''), s)
                 | Some p \<Rightarrow>
                     (if stock p < qty then
                        (Inl (HttpError 400 ''Not enough stock available''), s)
                      else
                        (case CartItem_save (cartItems s) False (cartItem\<lparr>quantity := qty\<rparr>) of
                           None \<Rightarrow> (Inl (HttpError 500 ''Server error''), s)
                         | Some cs \<Rightarrow>
                             (Inr (Response 200
                                (MessageItem ''Cart item updated''
                                   (toObject_with (cartItem\<lparr>quantity := qty\<rparr>) (Some p)))),
                              s\<lparr>cartItems := cs\<rparr>)))))))"

text \<open>\<^verbatim>\<open>app.delete('/cart/:id', authenticate, ...)\<close>\<close>

definition delete_cart :: "db \<Rightarrow> objectId \<Rightarrow> objectId \<Rightarrow> (error + response) \<times> db" where
  "delete_cart s uid i =
     (case CartItem_findById (cartItems s) i of
        None \<Rightarrow> (Inl (HttpError 404 ''Cart item not found''), s)
      | Some cartItem \<Rightarrow>
          (if user cartItem \<noteq> uid then
             (Inl (HttpError 403 ''Not authorized to delete this cart item''), s)
           else
             (Inr (Response 200 (Message ''Item removed from cart'')),
              s\<lparr>cartItems := CartItem_deleteOne (cartItems s) cartItem\<rparr>)))"

subsection \<open>Product creation\<close>

text \<open>
  \<^verbatim>\<open>title: { trim: true }\<close>: \<^verbatim>\<open>String.prototype.trim\<close>. Of the code units below 256, the
  white space and line terminators of JavaScript are tab, line feed, vertical tab, form
  feed, carriage return, space and no-break space.
\<close>

definition isWhiteSpace :: "char \<Rightarrow> bool" where
  "isWhiteSpace c =
     (c \<in> set [CHR 0x09, CHR 0x0A, CHR 0x0B, CHR 0x0C, CHR 0x0D, CHR 0x20, CHR 0xA0])"

definition trim :: "string \<Rightarrow> string" where
  "trim str = rev (dropWhile isWhiteSpace (rev (dropWhile isWhiteSpace str)))"

text \<open>
  The validators of \<^verbatim>\<open>productSchema\<close>: every field is required (a required string is not
  empty), \<^verbatim>\<open>price: { min: 0 }\<close>, \<^verbatim>\<open>rating: { min: 0, max: 5 }\<close>, \<^verbatim>\<open>stock: { min: 0 }\<close>.
\<close>

definition productSchema_valid :: "Product \<Rightarrow> bool" where
  "productSchema_valid p =
     (title p \<noteq> [] \<and> description p \<noteq> [] \<and> category p \<noteq> [] \<and>
      0 \<le> price p \<and> 0 \<le> rating p \<and> rating p \<le> 5 \<and> 0 \<le> stock p)"

text \<open>\<^verbatim>\<open>newProduct.save()\<close>; \<^verbatim>\<open>id\<close> has a unique index.\<close>

definition Product_save :: "Product list \<Rightarrow> Product \<Rightarrow> Product list option" where
  "Product_save ps p =
     (if \<not> productSchema_valid p then None
      else if id' p \<in> set (map id' ps) then None
      else Some (ps @ [p]))"

text \<open>
  The Number nearest to an integer, ties going to the even significand: what the code's
  \<^verbatim>\<open>+\<close> returns for an integer sum. Integers below \<open>2 ^ 53\<close> in magnitude are Numbers;
  above, \<open>u\<close> is the distance between neighbouring Numbers. (No sum of a Number and 1
  reaches \<^verbatim>\<open>Infinity\<close>.)
\<close>

definition round_to_Number :: "int \<Rightarrow> int" where
  "round_to_Number n =
     (let a = \<bar>n\<bar>;
          u = 2 ^ nat (bitlen a - 53);
          q = a div u;
          r = a mod u;
          q' = (if u < 2 * r \<or> (u = 2 * r \<and> odd q) then q + 1 else q)
      in sgn n * (q' * u))"

text \<open>\<^verbatim>\<open>app.post('/products', ...)\<close>; \<open>newId\<close> is \<^verbatim>\<open>lastProduct.id + 1\<close>, a sum of Numbers.\<close>

definition post_products ::
  "db \<Rightarrow> string \<Rightarrow> string \<Rightarrow> string \<Rightarrow> rat \<Rightarrow> rat \<Rightarrow> rat \<Rightarrow> (error + response) \<times> db" where
  "post_products s ttl descr cat pr rt stk =
     (let newId = (case Product_findLast (products s) of
                     Some lastProduct \<Rightarrow> round_to_Number (id' lastProduct + 1)
                   | None \<Rightarrow> 1);
          newProduct =
            \<lparr>id' = newId, title = trim ttl, description = descr, category = cat,
             price = pr, rating = rt, stock = stk\<rparr>
      in (case Product_save (products s) newProduct of
            None \<Rightarrow> (Inl (HttpError 500 ''Server error''), s)
          | Some ps \<Rightarrow> (Inr (Response 201 (Saved newProduct)), s\<lparr>products := ps\<rparr>)))"

subsection \<open>Sequences of requests\<close>

datatype request =
    GET_cart objectId
  | POST_cart objectId int rat date
  | PUT_cart objectId objectId rat
  | DELETE_cart objectId objectId
  | POST_products string string string rat rat rat

fun handle :: "db \<Rightarrow> request \<Rightarrow> (error + response) \<times> db" where
  "handle s (GET_cart u) = get_cart s u"
| "handle s (POST_cart u p q t) = post_cart s u p q t"
| "handle s (PUT_cart u i q) = put_cart s u i q"
| "handle s (DELETE_cart u i) = delete_cart s u i"
| "handle s (POST_products ttl descr cat pr rt stk) = post_products s ttl descr cat pr rt stk"

text \<open>The database after a sequence of requests, each served on the state the last one left.\<close>

definition run :: "db \<Rightarrow> request list \<Rightarrow> db" where
  "run s rs = foldl (\<lambda>s' r. snd (handle s' r)) s rs"

definition empty_db :: db where
  "empty_db = \<lparr>products = [], cartItems = []\<rparr>"

subsection \<open>Invariants of the stored state\<close>

text \<open>
  Catalog ids are those \<^verbatim>\<open>POST /products\<close> assigns: 1 for the first product, the greatest
  id plus one afterwards. At \<open>2 ^ 53\<close> the sum \<^verbatim>\<open>lastProduct.id + 1\<close> is \<open>2 ^ 53\<close> again, so
  no assigned id is greater.
\<close>

definition catalog_ok :: "Product list \<Rightarrow> bool" where
  "catalog_ok ps = list_all (\<lambda>p. 1 \<le> id' p \<and> id' p \<le> 2 ^ 53) ps"

text \<open>MongoDB's unique index on \<^verbatim>\<open>_id\<close>.\<close>

definition cart_ok :: "CartItem list \<Rightarrow> bool" where
  "cart_ok cs = distinct (map oid cs)"

definition quantities_ok :: "CartItem list \<Rightarrow> bool" where
  "quantities_ok cs = list_all (\<lambda>c. 1 \<le> quantity c) cs"

definition is_integer :: "rat \<Rightarrow> bool" where
  "is_integer q = (of_int \<lfloor>q\<rfloor> = q)"



subsection \<open>Example states\<close>

definition pen :: Product where
  "pen = \<lparr>id' = 1, title = ''Pen'', description = ''Blue ink'', category = ''Office'',
          price = 3 / 2, rating = 4, stock = 10\<rparr>"

definition lamp :: Product where
  "lamp = \<lparr>id' = 2, title = ''Lamp'', description = ''Desk lamp'', category = ''Home'',
           price = 20, rating = 9 / 2, stock = 3\<rparr>"

text \<open>A catalog of two products and an empty cart collection.\<close>

definition shop :: db where
  "shop = \<lparr>products = [pen, lamp], cartItems = []\<rparr>"

text \<open>
  User 1 holds four pens and one unit of a product 9 that is not in the catalog; user 2
  holds two lamps.
\<close>

definition shop_with_carts :: db where
  "shop_with_carts =
     \<lparr>products = [pen, lamp],
      cartItems =
        [\<lparr>oid = 1, user = 1, product = 1, quantity = 4, addedAt = 100\<rparr>,
         \<lparr>oid = 2, user = 2, product = 2, quantity = 2, addedAt = 101\<rparr>,
         \<lparr>oid = 3, user = 1, product = 9, quantity = 1, addedAt = 102\<rparr>]\<rparr>"

section \<open>Properties of the collections\<close>





lemma catalog_ok_found:
  assumes "catalog_ok ps" and "Product_findOne ps i = Some p"
  shows "1 \<le> i \<and> i \<le> 2 ^ 53"
  using assms by (auto simp: catalog_ok_def Product_findOne_def find_Some_iff list_all_iff)

lemma parseInt_plain: "\<bar>n\<bar> < 10 ^ 21 \<Longrightarrow> parseInt n = Some n"
  by (simp add: parseInt_def)

lemma parseInt_catalog_id:
  assumes "1 \<le> i" and "i \<le> 2 ^ 53"
  shows "parseInt i = Some i"
proof -
  have "(2::int) ^ 53 < 10 ^ 21" by simp
  with assms have "\<bar>i\<bar> < 10 ^ 21" by linarith
  then show ?thesis by (rule parseInt_plain)
qed

lemma parseInt_Some: "\<exists>m. parseInt n = Some m"
  by (simp add: parseInt_def)



lemma validateCartItem_below_1:
  assumes "q < 1"
  shows "\<exists>msg. validateCartItem ps i q = Inl (HttpError 400 msg)"
proof -
  obtain m where "parseInt i = Some m" using parseInt_Some by blast
  with assms show ?thesis by (simp add: validateCartItem_def)
qed


lemma updateOne_oids: "map oid (updateOne cs d) = map oid cs"
  by (induction cs) auto





lemma findById_Some:
  assumes "CartItem_findById cs i = Some c"
  shows "oid c = i \<and> c \<in> set cs"
  using assms by (auto simp: CartItem_findById_def find_Some_iff)

lemma findById_updateOne_same:
  "CartItem_findById cs (oid d) = Some c \<Longrightarrow> CartItem_findById (updateOne cs d) (oid d) = Some d"
  by (induction cs) (auto simp: CartItem_findById_def)

lemma findById_updateOne_other:
  "j \<noteq> oid d \<Longrightarrow> CartItem_findById (updateOne cs d) j = CartItem_findById cs j"
  by (induction cs) (auto simp: CartItem_findById_def)

lemma findById_deleteOne_same:
  "distinct (map oid cs) \<Longrightarrow> CartItem_findById (CartItem_deleteOne cs d) (oid d) = None"
  by (induction cs) (auto simp: CartItem_findById_def find_None_iff image_iff)

lemma findById_deleteOne_other:
  "j \<noteq> oid d \<Longrightarrow> CartItem_findById (CartItem_deleteOne cs d) j = CartItem_findById cs j"
  by (induction cs) (auto simp: CartItem_findById_def)

lemma deleteOne_subset: "set (CartItem_deleteOne cs d) \<subseteq> set cs"
  by (induction cs) auto

lemma deleteOne_distinct:
  "distinct (map oid cs) \<Longrightarrow> distinct (map oid (CartItem_deleteOne cs d))"
proof (induction cs)
  case Nil
  then show ?case by simp
next
  case (Cons a cs)
  have "oid ` set (CartItem_deleteOne cs d) \<subseteq> oid ` set cs"
    using deleteOne_subset [of cs d] by (rule image_mono)
  with Cons show ?case by auto
qed

lemma put_cart_accepts:
  assumes "CartItem_findById (cartItems s) i = Some c" and "user c = u" and "1 \<le> q"
    and "Product_findOne (products s) (product c) = Some pr" and "q \<le> stock pr"
  shows "put_cart s u i q =
    (Inr (Response 200 (MessageItem ''Cart item updated''
       (toObject_with (c\<lparr>quantity := q\<rparr>) (Some pr)))),
     s\<lparr>cartItems := updateOne (cartItems s) (c\<lparr>quantity := q\<rparr>)\<rparr>)"
proof -
  from assms(1) have "oid c \<in> oid ` set (cartItems s)"
    using findById_Some by blast
  then show ?thesis
    using assms
    by (simp add: put_cart_def CartItem_save_def cartItemSchema_valid_def)
qed

lemma delete_cart_accepts:
  assumes "CartItem_findById (cartItems s) i = Some c" and "user c = u"
  shows "delete_cart s u i =
    (Inr (Response 200 (Message ''Item removed from cart'')),
     s\<lparr>cartItems := CartItem_deleteOne (cartItems s) c\<rparr>)"
  using assms by (simp add: delete_cart_def)

subsection \<open>Each handler keeps the invariants\<close>

lemma save_oids:
  assumes "CartItem_save cs isNew d = Some cs'" and "distinct (map oid cs)"
  shows "distinct (map oid cs')"
  using assms
  by (auto simp: CartItem_save_def updateOne_oids split: if_splits)

lemma post_cart_cases:
  "snd (post_cart s u p q t) = s \<or>
   (\<exists>d cs' isNew. CartItem_save (cartItems s) isNew d = Some cs' \<and>
      snd (post_cart s u p q t) = s\<lparr>cartItems := cs'\<rparr> \<and>
      (quantity d = q \<or> (\<exists>c \<in> set (cartItems s). quantity d = quantity c + q)))"
proof (cases "validateCartItem (products s) p q")
  case (Inl e)
  then show ?thesis by (simp add: post_cart_def)
next
  case (Inr pr)
  show ?thesis
  proof (cases "CartItem_findOne (cartItems s) u p")
    case None
    let ?d = "\<lparr>oid = new_ObjectId (cartItems s), user = u, product = p, quantity = q,
               addedAt = t\<rparr>"
    show ?thesis
    proof (cases "CartItem_save (cartItems s) True ?d")
      case N: None
      with Inr None show ?thesis by (simp add: post_cart_def post_cart_handler_def)
    next
      case (Some cs')
      with Inr None have "snd (post_cart s u p q t) = s\<lparr>cartItems := cs'\<rparr>"
        by (simp add: post_cart_def post_cart_handler_def)
      moreover have "quantity ?d = q" by simp
      ultimately show ?thesis using Some by blast
    qed
  next
    case (Some c)
    then have mem: "c \<in> set (cartItems s)"
      by (auto simp: CartItem_findOne_def find_Some_iff)
    let ?d = "c\<lparr>quantity := quantity c + q\<rparr>"
    show ?thesis
    proof (cases "CartItem_save (cartItems s) False ?d")
      case None
      with Inr Some show ?thesis by (simp add: post_cart_def post_cart_handler_def)
    next
      case S: (Some cs')
      with Inr Some have "snd (post_cart s u p q t) = s\<lparr>cartItems := cs'\<rparr>"
        by (simp add: post_cart_def post_cart_handler_def Let_def)
      moreover have "quantity ?d = quantity c + q" by simp
      ultimately show ?thesis using S mem by blast
    qed
  qed
qed

lemma put_cart_cases:
  "snd (put_cart s u i q) = s \<or>
   (\<exists>d cs'. CartItem_save (cartItems s) False d = Some cs' \<and>
      snd (put_cart s u i q) = s\<lparr>cartItems := cs'\<rparr> \<and> quantity d = q)"
proof (cases "snd (put_cart s u i q) = s")
  case True
  then show ?thesis by simp
next
  case False
  then obtain c pr cs' where
    "CartItem_save (cartItems s) False (c\<lparr>quantity := q\<rparr>) = Some cs'"
    "snd (put_cart s u i q) = s\<lparr>cartItems := cs'\<rparr>"
    by (auto simp: put_cart_def split: if_splits option.splits)
  moreover have "quantity (c\<lparr>quantity := q\<rparr>) = q" by simp
  ultimately show ?thesis by blast
qed

lemma delete_cart_cases:
  "snd (delete_cart s u i) = s \<or>
   (\<exists>d. snd (delete_cart s u i) = s\<lparr>cartItems := CartItem_deleteOne (cartItems s) d\<rparr>)"
  by (auto simp: delete_cart_def split: option.splits)

lemma findLast_mem: "Product_findLast ps = Some l \<Longrightarrow> l \<in> set ps"
  by (induction ps arbitrary: l) (auto split: option.splits if_splits)

lemma post_products_cart: "cartItems (snd (post_products s a b c d e f)) = cartItems s"
  by (simp add: post_products_def Let_def split: option.splits)

lemma round_to_Number_exact:
  assumes "0 \<le> n" and "n < 2 ^ 53"
  shows "round_to_Number n = n"
proof -
  from assms have "bitlen \<bar>n\<bar> \<le> 53"
    by (simp add: bitlen_le_iff_power)
  then have "nat (bitlen \<bar>n\<bar> - 53) = 0" by simp
  moreover have "sgn n * \<bar>n\<bar> = n" by (simp add: sgn_mult_abs)
  ultimately show ?thesis by (simp add: round_to_Number_def Let_def)
qed

lemma bitlen_2_53: "bitlen (2 ^ 53) = 54"
  using bitlen_twopow_add_eq [of 0 53] by simp

lemma bitlen_2_53_1: "bitlen (2 ^ 53 + 1) = 54"
  using bitlen_twopow_add_eq [of 1 53] by simp

lemma round_to_Number_limit: "round_to_Number (2 ^ 53) = 2 ^ 53"
  using bitlen_2_53 by (simp add: round_to_Number_def Let_def)

lemma round_to_Number_past_limit: "round_to_Number (2 ^ 53 + 1) = 2 ^ 53"
  using bitlen_2_53_1 by (simp add: round_to_Number_def Let_def)

lemma next_catalog_id:
  assumes "1 \<le> i" and "i \<le> 2 ^ 53"
  shows "1 \<le> round_to_Number (i + 1) \<and> round_to_Number (i + 1) \<le> 2 ^ 53"
proof (cases "i + 1 < 2 ^ 53")
  case True
  with assms have "round_to_Number (i + 1) = i + 1" by (simp add: round_to_Number_exact)
  with assms True show ?thesis by simp
next
  case False
  with assms consider "i + 1 = 2 ^ 53" | "i = 2 ^ 53" by linarith
  then show ?thesis
  proof cases
    case 1
    then show ?thesis using round_to_Number_limit by simp
  next
    case 2
    then show ?thesis using round_to_Number_past_limit by simp
  qed
qed

lemma post_products_catalog:
  assumes "catalog_ok (products s)"
  shows "catalog_ok (products (snd (post_products s a b c d e f)))"
proof (cases "Product_findLast (products s)")
  case None
  with assms show ?thesis
    by (auto simp: post_products_def Let_def Product_save_def catalog_ok_def split: option.splits)
next
  case (Some l)
  then have "l \<in> set (products s)" by (rule findLast_mem)
  with assms have "1 \<le> id' l \<and> id' l \<le> 2 ^ 53" by (simp add: catalog_ok_def list_all_iff)
  then have "1 \<le> round_to_Number (id' l + 1) \<and> round_to_Number (id' l + 1) \<le> 2 ^ 53"
    using next_catalog_id by blast
  with Some assms show ?thesis
    by (auto simp: post_products_def Let_def Product_save_def catalog_ok_def split: option.splits)
qed

lemma cart_handlers_products:
  "products (snd (get_cart s u)) = products s"
  "products (snd (post_cart s u p q t)) = products s"
  "products (snd (put_cart s u i q)) = products s"
  "products (snd (delete_cart s u i)) = products s"
  using post_cart_cases [of s u p q t] put_cart_cases [of s u i q] delete_cart_cases [of s u i]
  by (auto simp: get_cart_def Let_def)

lemma handle_catalog_ok:
  "catalog_ok (products s) \<Longrightarrow> catalog_ok (products (snd (handle s r)))"
  by (cases r) (simp_all add: cart_handlers_products post_products_catalog)

lemma updateOne_list_all: "list_all P cs \<Longrightarrow> P d \<Longrightarrow> list_all P (updateOne cs d)"
  by (induction cs) simp_all

lemma deleteOne_list_all: "list_all P cs \<Longrightarrow> list_all P (CartItem_deleteOne cs d)"
  by (induction cs) simp_all

lemma save_list_all:
  assumes "CartItem_save cs isNew d = Some cs'" and "list_all P cs" and "P d"
  shows "list_all P cs'"
  using assms by (auto simp: CartItem_save_def updateOne_list_all split: if_splits)

lemma save_valid:
  assumes "CartItem_save cs isNew d = Some cs'"
  shows "1 \<le> quantity d"
  using assms by (simp add: CartItem_save_def cartItemSchema_valid_def split: if_splits)

lemma post_cart_list_all:
  assumes "list_all P (cartItems s)"
    and "\<And>d. 1 \<le> quantity d \<Longrightarrow>
           quantity d = q \<or> (\<exists>c\<in>set (cartItems s). quantity d = quantity c + q) \<Longrightarrow> P d"
  shows "list_all P (cartItems (snd (post_cart s u p q t)))"
proof -
  consider "snd (post_cart s u p q t) = s"
    | d cs' isNew where "CartItem_save (cartItems s) isNew d = Some cs'"
        "snd (post_cart s u p q t) = s\<lparr>cartItems := cs'\<rparr>"
        "quantity d = q \<or> (\<exists>c\<in>set (cartItems s). quantity d = quantity c + q)"
    using post_cart_cases [of s u p q t] by blast
  then show ?thesis
  proof cases
    case 1
    with assms(1) show ?thesis by simp
  next
    case 2
    from 2(1) have "1 \<le> quantity d" by (rule save_valid)
    then have "P d" using 2(3) by (rule assms(2))
    with 2(1) assms(1) have "list_all P cs'" by (rule save_list_all)
    with 2(2) show ?thesis by simp
  qed
qed

lemma put_cart_list_all:
  assumes "list_all P (cartItems s)"
    and "\<And>d. 1 \<le> quantity d \<Longrightarrow> quantity d = q \<Longrightarrow> P d"
  shows "list_all P (cartItems (snd (put_cart s u i q)))"
proof -
  consider "snd (put_cart s u i q) = s"
    | d cs' where "CartItem_save (cartItems s) False d = Some cs'"
        "snd (put_cart s u i q) = s\<lparr>cartItems := cs'\<rparr>" "quantity d = q"
    using put_cart_cases [of s u i q] by blast
  then show ?thesis
  proof cases
    case 1
    with assms(1) show ?thesis by simp
  next
    case 2
    from 2(1) have "1 \<le> quantity d" by (rule save_valid)
    then have "P d" using 2(3) by (rule assms(2))
    with 2(1) assms(1) have "list_all P cs'" by (rule save_list_all)
    with 2(2) show ?thesis by simp
  qed
qed

lemma delete_cart_list_all:
  assumes "list_all P (cartItems s)"
  shows "list_all P (cartItems (snd (delete_cart s u i)))"
proof -
  consider "snd (delete_cart s u i) = s"
    | d where "snd (delete_cart s u i) = s\<lparr>cartItems := CartItem_deleteOne (cartItems s) d\<rparr>"
    using delete_cart_cases [of s u i] by blast
  then show ?thesis
  proof cases
    case 1
    with assms show ?thesis by simp
  next
    case 2
    with assms show ?thesis by (simp add: deleteOne_list_all)
  qed
qed

lemma handle_cart_ok:
  assumes "cart_ok (cartItems s)"
  shows "cart_ok (cartItems (snd (handle s r)))"
proof (cases r)
  case (GET_cart u)
  with assms show ?thesis by (simp add: get_cart_def Let_def)
next
  case (POST_cart u p q t)
  consider "snd (post_cart s u p q t) = s"
    | d cs' isNew where "CartItem_save (cartItems s) isNew d = Some cs'"
        "snd (post_cart s u p q t) = s\<lparr>cartItems := cs'\<rparr>"
    using post_cart_cases [of s u p q t] by blast
  then show ?thesis
  proof cases
    case 1
    with assms POST_cart show ?thesis by simp
  next
    case 2
    from 2(1) assms have "distinct (map oid cs')" unfolding cart_ok_def by (rule save_oids)
    with 2(2) POST_cart show ?thesis by (simp add: cart_ok_def)
  qed
next
  case (PUT_cart u i q)
  consider "snd (put_cart s u i q) = s"
    | d cs' where "CartItem_save (cartItems s) False d = Some cs'"
        "snd (put_cart s u i q) = s\<lparr>cartItems := cs'\<rparr>"
    using put_cart_cases [of s u i q] by blast
  then show ?thesis
  proof cases
    case 1
    with assms PUT_cart show ?thesis by simp
  next
    case 2
    from 2(1) assms have "distinct (map oid cs')" unfolding cart_ok_def by (rule save_oids)
    with 2(2) PUT_cart show ?thesis by (simp add: cart_ok_def)
  qed
next
  case (DELETE_cart u i)
  consider "snd (delete_cart s u i) = s"
    | d where "snd (delete_cart s u i) = s\<lparr>cartItems := CartItem_deleteOne (cartItems s) d\<rparr>"
    using delete_cart_cases [of s u i] by blast
  then show ?thesis
  proof cases
    case 1
    with assms DELETE_cart show ?thesis by simp
  next
    case 2
    with assms DELETE_cart show ?thesis by (simp add: cart_ok_def deleteOne_distinct)
  qed
next
  case (POST_products a b c d e f)
  with assms show ?thesis by (simp add: post_products_cart)
qed

lemma handle_quantities_ok:
  assumes "quantities_ok (cartItems s)"
  shows "quantities_ok (cartItems (snd (handle s r)))"
proof (cases r)
  case (GET_cart u)
  with assms show ?thesis by (simp add: get_cart_def Let_def)
next
  case (POST_cart u p q t)
  with assms show ?thesis
    unfolding quantities_ok_def by (simp add: post_cart_list_all)
next
  case (PUT_cart u i q)
  with assms show ?thesis
    unfolding quantities_ok_def by (simp add: put_cart_list_all)
next
  case (DELETE_cart u i)
  with assms show ?thesis
    unfolding quantities_ok_def by (simp add: delete_cart_list_all)
next
  case (POST_products a b c d e f)
  with assms show ?thesis by (simp add: post_products_cart)
qed

lemma run_snoc: "run s (rs @ [r]) = snd (handle (run s rs) r)"
  by (simp add: run_def)

lemma run_catalog_ok: "catalog_ok (products s) \<Longrightarrow> catalog_ok (products (run s rs))"
  by (induction rs rule: rev_induct) (simp_all add: run_def handle_catalog_ok)

lemma run_cart_ok: "cart_ok (cartItems s) \<Longrightarrow> cart_ok (cartItems (run s rs))"
  by (induction rs rule: rev_induct) (simp_all add: run_def handle_cart_ok)

lemma run_quantities_ok: "quantities_ok (cartItems s) \<Longrightarrow> quantities_ok (cartItems (run s rs))"
  by (induction rs rule: rev_induct) (simp_all add: run_def handle_quantities_ok)

text \<open>
  Every state the handlers can build from the empty database satisfies the three
  invariants.
\<close>

lemma reachable_ok:
  "catalog_ok (products (run empty_db rs)) \<and> cart_ok (cartItems (run empty_db rs)) \<and>
   quantities_ok (cartItems (run empty_db rs))"
proof (intro conjI)
  show "catalog_ok (products (run empty_db rs))"
    by (rule run_catalog_ok) (simp add: empty_db_def catalog_ok_def)
  show "cart_ok (cartItems (run empty_db rs))"
    by (rule run_cart_ok) (simp add: empty_db_def cart_ok_def)
  show "quantities_ok (cartItems (run empty_db rs))"
    by (rule run_quantities_ok) (simp add: empty_db_def quantities_ok_def)
qed

text \<open>
  The number 0 is falsy: a request for product id 0 is answered as if the id were missing,
  whatever the catalog holds. No product that \<^verbatim>\<open>POST /products\<close> created has this id.
\<close>

lemma post_cart_product_id_zero:
  "post_cart s u 0 q t = (Inl (HttpError 400 ''Product ID and quantity are required''), s)"
  by (simp add: post_cart_def validateCartItem_def)

text \<open>
  When the greatest id is \<open>2 ^ 53\<close>, \<^verbatim>\<open>lastProduct.id + 1\<close> is \<open>2 ^ 53\<close> again, the unique
  index refuses the new product, and \<^verbatim>\<open>POST /products\<close> answers 500.

  From \<open>10 ^ 21\<close> on, the validator looks up the product of the first digit while the
  handler stores the id it was sent: \<^verbatim>\<open>parseInt(1e21)\<close> and \<^verbatim>\<open>parseInt(1e23)\<close> are 1. No
  catalog id is that large.
\<close>

lemma post_products_at_limit:
  assumes "Product_findLast (products s) = Some l" and "id' l = 2 ^ 53"
  shows "post_products s a b c d e f = (Inl (HttpError 500 ''Server error''), s)"
proof -
  from assms(1) have "l \<in> set (products s)" by (rule findLast_mem)
  then have "id' l \<in> id' ` set (products s)" by (rule imageI)
  with assms round_to_Number_past_limit show ?thesis
    by (simp add: post_products_def Let_def Product_save_def)
qed

lemma parseInt_exponent_notation:
  "parseInt (10 ^ 21) = Some 1 \<and> parseInt 99999999999999991611392 = Some 1 \<and>
   parseInt 99999999999999974834176 = Some 9 \<and> parseInt (- (5 * 10 ^ 21)) = Some (- 5)"
  by code_simp

lemmas examples = shop_def shop_with_carts_def pen_def lamp_def

section \<open>The cart operations of the specification\<close>

text \<open>
  The specification's operations are the four cart routes: ListCart is \<open>get_cart\<close>, AddItem
  is \<open>post_cart\<close>, UpdateItem is \<open>put_cart\<close>, RemoveItem is \<open>delete_cart\<close>. Its errors are
  the responses of the handlers: ValidationError is a status 400, InsufficientStockError
  the status 400 with the message \<^verbatim>\<open>Not enough stock available\<close>, NotFoundError a status
  404, ForbiddenError a status 403, StorageError the status 500.
\<close>

subsection \<open>Adding accumulates into one entry\<close>



subsection \<open>Insufficient stock\<close>

text \<open>
  C2. For a product \<open>p\<close> of the catalog (its id is between 1 and \<open>2 ^ 53\<close>, as every
  assigned id) and a requested quantity \<open>q\<close> of at least 1: when
  the stock of \<open>p\<close> is less than \<open>q\<close>, AddItem fails with InsufficientStockError and the
  stored state, the user's cart included, is what it was.
\<close>

theorem post_cart_insufficient_stock:
  assumes "catalog_ok (products s)"
    and "Product_findOne (products s) p = Some pr"
    and "1 \<le> q" and "stock pr < q"
  shows "post_cart s u p q t = (Inl (HttpError 400 ''Not enough stock available''), s)"
proof -
  from assms(1,2) have "1 \<le> p" "p \<le> 2 ^ 53" using catalog_ok_found by blast+
  then have "p \<noteq> 0" "parseInt p = Some p" by (simp_all add: parseInt_catalog_id)
  with assms show ?thesis
    by (simp add: post_cart_def validateCartItem_def)
qed

theorem post_cart_insufficient_stock_witness:
  "catalog_ok (products shop) \<and> Product_findOne (products shop) 2 = Some lamp \<and>
   (1::rat) \<le> 4 \<and> stock lamp < 4 \<and>
   post_cart shop 7 2 4 50 = (Inl (HttpError 400 ''Not enough stock available''), shop)"
proof -
  have h1: "catalog_ok (products shop)" by (simp add: examples catalog_ok_def)
  have h2: "Product_findOne (products shop) 2 = Some lamp"
    by (simp add: examples Product_findOne_def)
  have h3: "(1::rat) \<le> 4" by simp
  have h4: "stock lamp < 4" by (simp add: lamp_def)
  from post_cart_insufficient_stock [OF h1 h2 h3 h4, of 7 50] h1 h2 h3 h4
  show ?thesis by simp
qed

subsection \<open>Only the increment is checked against the stock\<close>



subsection \<open>Updating sets the quantity\<close>

text \<open>
  C4. For a cart item \<open>c\<close> with id \<open>i\<close> that the caller owns, whose product is in the
  catalog, and a new quantity \<open>q\<close> of at least 1: when the product's stock is less than
  \<open>q\<close>, UpdateItem fails with InsufficientStockError and nothing changes; otherwise it
  succeeds and the item's quantity is \<open>q\<close> (not the old quantity plus \<open>q\<close>), every other
  item being as before.
\<close>

theorem put_cart_sets_quantity:
  assumes "CartItem_findById (cartItems s) i = Some c" and "user c = u" and "1 \<le> q"
    and "Product_findOne (products s) (product c) = Some pr"
  shows "(stock pr < q \<longrightarrow>
            put_cart s u i q = (Inl (HttpError 400 ''Not enough stock available''), s)) \<and>
         (q \<le> stock pr \<longrightarrow>
            fst (put_cart s u i q) =
              Inr (Response 200 (MessageItem ''Cart item updated''
                (toObject_with (c\<lparr>quantity := q\<rparr>) (Some pr)))) \<and>
            CartItem_findById (cartItems (snd (put_cart s u i q))) i = Some (c\<lparr>quantity := q\<rparr>) \<and>
            (\<forall>j. j \<noteq> i \<longrightarrow>
               CartItem_findById (cartItems (snd (put_cart s u i q))) j =
               CartItem_findById (cartItems s) j) \<and>
            map oid (cartItems (snd (put_cart s u i q))) = map oid (cartItems s))"
proof (intro conjI impI)
  assume "stock pr < q"
  with assms show "put_cart s u i q = (Inl (HttpError 400 ''Not enough stock available''), s)"
    by (simp add: put_cart_def)
next
  assume le: "q \<le> stock pr"
  note acc = put_cart_accepts [OF assms le]
  from assms(1) have i: "oid (c\<lparr>quantity := q\<rparr>) = i" using findById_Some by fastforce
  show "fst (put_cart s u i q) =
      Inr (Response 200 (MessageItem ''Cart item updated''
        (toObject_with (c\<lparr>quantity := q\<rparr>) (Some pr))))"
    by (simp add: acc)
  show "CartItem_findById (cartItems (snd (put_cart s u i q))) i = Some (c\<lparr>quantity := q\<rparr>)"
    using findById_updateOne_same [of "cartItems s" "c\<lparr>quantity := q\<rparr>" c] assms(1) i
    by (simp add: acc)
  show "\<forall>j. j \<noteq> i \<longrightarrow>
      CartItem_findById (cartItems (snd (put_cart s u i q))) j = CartItem_findById (cartItems s) j"
    using i by (simp add: acc findById_updateOne_other)
  show "map oid (cartItems (snd (put_cart s u i q))) = map oid (cartItems s)"
    by (simp add: acc updateOne_oids)
qed

theorem put_cart_sets_quantity_witness:
  "CartItem_findById (cartItems shop_with_carts) 1 =
     Some \<lparr>oid = 1, user = 1, product = 1, quantity = 4, addedAt = 100\<rparr> \<and>
   Product_findOne (products shop_with_carts) 1 = Some pen \<and>
   stock pen < 11 \<and> (1::rat) \<le> 11 \<and>
   put_cart shop_with_carts 1 1 11 =
     (Inl (HttpError 400 ''Not enough stock available''), shop_with_carts) \<and>
   (7::rat) \<le> stock pen \<and> (1::rat) \<le> 7 \<and>
   CartItem_findById (cartItems (snd (put_cart shop_with_carts 1 1 7))) 1 =
     Some \<lparr>oid = 1, user = 1, product = 1, quantity = 7, addedAt = 100\<rparr> \<and>
   (2::nat) \<noteq> 1 \<and>
   CartItem_findById (cartItems (snd (put_cart shop_with_carts 1 1 7))) 2 =
     Some \<lparr>oid = 2, user = 2, product = 2, quantity = 2, addedAt = 101\<rparr>"
proof -
  let ?c = "\<lparr>oid = 1, user = 1, product = 1, quantity = 4, addedAt = 100\<rparr>"
  have h1: "CartItem_findById (cartItems shop_with_carts) 1 = Some ?c"
    by (simp add: examples CartItem_findById_def)
  have h2: "user ?c = 1" by simp
  have h3: "Product_findOne (products shop_with_carts) (product ?c) = Some pen"
    by (simp add: examples Product_findOne_def)
  have a: "stock pen < 11" "(1::rat) \<le> 11" "(7::rat) \<le> stock pen" "(1::rat) \<le> 7"
    by (simp_all add: pen_def)
  have other: "CartItem_findById (cartItems shop_with_carts) 2 =
      Some \<lparr>oid = 2, user = 2, product = 2, quantity = 2, addedAt = 101\<rparr>"
    by (simp add: examples CartItem_findById_def)
  from put_cart_sets_quantity [OF h1 h2 a(2) h3] put_cart_sets_quantity [OF h1 h2 a(4) h3]
    h1 h3 a other
  show ?thesis by simp
qed

subsection \<open>Ownership\<close>

text \<open>
  C5, as the code has it. For a cart item whose stored owner is not the caller:
  RemoveItem fails with ForbiddenError; UpdateItem fails with ForbiddenError when the
  requested quantity is at least 1, and with ValidationError when it is below 1, since
  the quantity is checked before the item is looked up. In every case the stored state is
  unchanged.
\<close>

theorem non_owner_forbidden:
  assumes "CartItem_findById (cartItems s) i = Some c" and "user c \<noteq> u"
  shows "delete_cart s u i =
           (Inl (HttpError 403 ''Not authorized to delete this cart item''), s) \<and>
         (1 \<le> q \<longrightarrow> put_cart s u i q =
           (Inl (HttpError 403 ''Not authorized to update this cart item''), s)) \<and>
         (q < 1 \<longrightarrow> put_cart s u i q =
           (Inl (HttpError 400 ''Quantity must be at least 1''), s))"
  using assms by (auto simp: delete_cart_def put_cart_def)

theorem non_owner_forbidden_witness:
  "CartItem_findById (cartItems shop_with_carts) 1 =
     Some \<lparr>oid = 1, user = 1, product = 1, quantity = 4, addedAt = 100\<rparr> \<and> (1::nat) \<noteq> 2 \<and>
   delete_cart shop_with_carts 2 1 =
     (Inl (HttpError 403 ''Not authorized to delete this cart item''), shop_with_carts) \<and>
   put_cart shop_with_carts 2 1 5 =
     (Inl (HttpError 403 ''Not authorized to update this cart item''), shop_with_carts)"
proof -
  let ?c = "\<lparr>oid = 1, user = 1, product = 1, quantity = 4, addedAt = 100\<rparr>"
  have h1: "CartItem_findById (cartItems shop_with_carts) 1 = Some ?c"
    by (simp add: examples CartItem_findById_def)
  have h2: "user ?c \<noteq> 2" by simp
  from non_owner_forbidden [OF h1 h2, of 5] h1
  show ?thesis by simp
qed

text \<open>
  User 2 asks for quantity 0 of user 1's item: the answer is the status 400 of the
  quantity check, not the status 403.
\<close>

theorem non_owner_validation_first:
  "CartItem_findById (cartItems shop_with_carts) 1 =
     Some \<lparr>oid = 1, user = 1, product = 1, quantity = 4, addedAt = 100\<rparr> \<and>
   user \<lparr>oid = 1, user = 1, product = 1, quantity = 4, addedAt = 100\<rparr> \<noteq> 2 \<and>
   put_cart shop_with_carts 2 1 0 =
     (Inl (HttpError 400 ''Quantity must be at least 1''), shop_with_carts) \<and>
   fst (put_cart shop_with_carts 2 1 0) \<noteq>
     Inl (HttpError 403 ''Not authorized to update this cart item'')"
  by (simp add: examples CartItem_findById_def put_cart_def)

subsection \<open>Removing twice\<close>

text \<open>
  C6. For a cart item with id \<open>i\<close> that the caller owns: RemoveItem succeeds and the item
  is gone, the other items being as before; a second RemoveItem of \<open>i\<close> fails with
  NotFoundError and changes nothing.
\<close>

theorem delete_cart_twice:
  assumes "cart_ok (cartItems s)"
    and "CartItem_findById (cartItems s) i = Some c" and "user c = u"
  shows "fst (delete_cart s u i) = Inr (Response 200 (Message ''Item removed from cart'')) \<and>
         CartItem_findById (cartItems (snd (delete_cart s u i))) i = None \<and>
         (\<forall>j. j \<noteq> i \<longrightarrow>
            CartItem_findById (cartItems (snd (delete_cart s u i))) j =
            CartItem_findById (cartItems s) j) \<and>
         delete_cart (snd (delete_cart s u i)) u i =
           (Inl (HttpError 404 ''Cart item not found''), snd (delete_cart s u i))"
proof -
  note acc = delete_cart_accepts [OF assms(2,3)]
  from assms(2) have i: "oid c = i" using findById_Some by blast
  have gone: "CartItem_findById (CartItem_deleteOne (cartItems s) c) i = None"
    using findById_deleteOne_same [of "cartItems s" c] assms(1) i by (simp add: cart_ok_def)
  have others: "\<forall>j. j \<noteq> i \<longrightarrow>
      CartItem_findById (CartItem_deleteOne (cartItems s) c) j = CartItem_findById (cartItems s) j"
    using i by (simp add: findById_deleteOne_other)
  from gone others show ?thesis
    by (simp add: acc) (simp add: delete_cart_def)
qed

theorem delete_cart_twice_witness:
  "cart_ok (cartItems shop_with_carts) \<and>
   CartItem_findById (cartItems shop_with_carts) 2 =
     Some \<lparr>oid = 2, user = 2, product = 2, quantity = 2, addedAt = 101\<rparr> \<and>
   fst (delete_cart shop_with_carts 2 2) = Inr (Response 200 (Message ''Item removed from cart'')) \<and>
   CartItem_findById (cartItems (snd (delete_cart shop_with_carts 2 2))) 2 = None \<and>
   (1::nat) \<noteq> 2 \<and>
   CartItem_findById (cartItems (snd (delete_cart shop_with_carts 2 2))) 1 =
     Some \<lparr>oid = 1, user = 1, product = 1, quantity = 4, addedAt = 100\<rparr> \<and>
   fst (delete_cart (snd (delete_cart shop_with_carts 2 2)) 2 2) =
     Inl (HttpError 404 ''Cart item not found'')"
proof -
  let ?c = "\<lparr>oid = 2, user = 2, product = 2, quantity = 2, addedAt = 101\<rparr>"
  have h1: "cart_ok (cartItems shop_with_carts)" by (simp add: examples cart_ok_def)
  have h2: "CartItem_findById (cartItems shop_with_carts) 2 = Some ?c"
    by (simp add: examples CartItem_findById_def)
  have h3: "user ?c = 2" by simp
  have other: "CartItem_findById (cartItems shop_with_carts) 1 =
      Some \<lparr>oid = 1, user = 1, product = 1, quantity = 4, addedAt = 100\<rparr>"
    by (simp add: examples CartItem_findById_def)
  from delete_cart_twice [OF h1 h2 h3] h1 h2 other
  show ?thesis by simp
qed

subsection \<open>Listing a cart\<close>

text \<open>
  C7. ListCart of user \<open>u\<close> succeeds, and returns, in stored order, one entry for each cart
  item whose stored owner is \<open>u\<close> and no other entry, each with the catalog document
  found for its product; the list is empty when \<open>u\<close> owns no item; the stored state is
  unchanged.
\<close>

theorem get_cart_lists_own_entries:
  "\<exists>rs. get_cart s u = (Inr (Response 200 (Items rs)), s) \<and>
     map (\<lambda>r. (item_id r, item_user r, item_quantity r, item_addedAt r)) rs =
       map (\<lambda>c. (oid c, user c, quantity c, addedAt c)) (filter (\<lambda>c. user c = u) (cartItems s)) \<and>
     map item_product rs =
       map (\<lambda>c. Product_findOne (products s) (product c)) (filter (\<lambda>c. user c = u) (cartItems s)) \<and>
     (\<forall>r \<in> set rs. item_user r = u) \<and>
     ((\<forall>c \<in> set (cartItems s). user c \<noteq> u) \<longrightarrow> rs = [])"
proof -
  let ?own = "filter (\<lambda>c. user c = u) (cartItems s)"
  let ?rs = "map (\<lambda>item. toObject_with item (Product_findOne (products s) (product item))) ?own"
  have 1: "get_cart s u = (Inr (Response 200 (Items ?rs)), s)"
    by (simp add: get_cart_def CartItem_find_def)
  have 2: "map (\<lambda>r. (item_id r, item_user r, item_quantity r, item_addedAt r)) ?rs =
       map (\<lambda>c. (oid c, user c, quantity c, addedAt c)) ?own"
    by (simp add: toObject_with_def)
  have 3: "map item_product ?rs = map (\<lambda>c. Product_findOne (products s) (product c)) ?own"
    by (simp add: toObject_with_def)
  have 4: "\<forall>r \<in> set ?rs. item_user r = u"
    by (simp add: toObject_with_def)
  have 5: "(\<forall>c \<in> set (cartItems s). user c \<noteq> u) \<longrightarrow> ?rs = []"
    by (simp add: filter_empty_conv)
  show ?thesis
    by (intro exI conjI) (rule 1, rule 2, rule 3, rule 4, rule 5)
qed

theorem get_cart_lists_own_entries_witness:
  "get_cart shop_with_carts 2 =
     (Inr (Response 200 (Items
        [\<lparr>item_id = 2, item_user = 2, item_product = Some lamp, item_quantity = 2,
          item_addedAt = 101\<rparr>])), shop_with_carts) \<and>
   get_cart shop_with_carts 5 = (Inr (Response 200 (Items [])), shop_with_carts)"
proof -
  have own: "filter (\<lambda>c. user c = 2) (cartItems shop_with_carts) =
      [\<lparr>oid = 2, user = 2, product = 2, quantity = 2, addedAt = 101\<rparr>]"
    by (simp add: examples)
  have none: "\<forall>c \<in> set (cartItems shop_with_carts). user c \<noteq> 5"
    by (simp add: examples)
  have lamp: "Product_findOne (products shop_with_carts) 2 = Some lamp"
    by (simp add: examples Product_findOne_def)
  from get_cart_lists_own_entries [of shop_with_carts 2] obtain rs where
    rs: "get_cart shop_with_carts 2 = (Inr (Response 200 (Items rs)), shop_with_carts)"
      "map (\<lambda>r. (item_id r, item_user r, item_quantity r, item_addedAt r)) rs =
        map (\<lambda>c. (oid c, user c, quantity c, addedAt c))
          (filter (\<lambda>c. user c = 2) (cartItems shop_with_carts))"
      "map item_product rs = map (\<lambda>c. Product_findOne (products shop_with_carts) (product c))
          (filter (\<lambda>c. user c = 2) (cartItems shop_with_carts))"
    by blast
  from rs(2,3) own lamp obtain r where "rs = [r]" "item_id r = 2" "item_user r = 2"
    "item_quantity r = 2" "item_addedAt r = 101" "item_product r = Some lamp"
    by (cases rs) auto
  then have "rs = [\<lparr>item_id = 2, item_user = 2, item_product = Some lamp, item_quantity = 2,
          item_addedAt = 101\<rparr>]" by simp
  moreover from get_cart_lists_own_entries [of shop_with_carts 5] none
  have "get_cart shop_with_carts 5 = (Inr (Response 200 (Items [])), shop_with_carts)"
    by auto
  ultimately show ?thesis using rs(1) by simp
qed

subsection \<open>Quantities of stored items\<close>

text \<open>
  C8, as the code has it. After any sequence of requests, started from a cart whose
  quantities are at least 1 (the empty cart is one), every stored quantity is at least 1:
  AddItem and UpdateItem reject a requested quantity below 1 with a status 400 and change
  nothing. No handler checks that a quantity is an integer.
\<close>

theorem cart_quantities_at_least_one:
  "(quantities_ok (cartItems s) \<longrightarrow> quantities_ok (cartItems (run s rs))) \<and>
   (q < 1 \<longrightarrow> (\<exists>msg. post_cart s u p q t = (Inl (HttpError 400 msg), s)) \<and>
               put_cart s u i q = (Inl (HttpError 400 ''Quantity must be at least 1''), s))"
proof (intro conjI impI)
  assume "quantities_ok (cartItems s)"
  then show "quantities_ok (cartItems (run s rs))" by (rule run_quantities_ok)
next
  assume "q < 1"
  then obtain msg where "validateCartItem (products s) p q = Inl (HttpError 400 msg)"
    using validateCartItem_below_1 by blast
  then show "\<exists>msg. post_cart s u p q t = (Inl (HttpError 400 msg), s)"
    by (simp add: post_cart_def)
next
  assume "q < 1"
  then show "put_cart s u i q = (Inl (HttpError 400 ''Quantity must be at least 1''), s)"
    by (simp add: put_cart_def)
qed

theorem cart_quantities_at_least_one_witness:
  "quantities_ok (cartItems empty_db) \<and>
   quantities_ok (cartItems (run empty_db
     [POST_products ''Pen'' ''Blue ink'' ''Office'' (3 / 2) 4 10,
      POST_cart 7 1 (3 / 2) 50, PUT_cart 7 1 5, PUT_cart 7 1 0, POST_cart 7 1 3 51])) \<and>
   (0::rat) < 1 \<and>
   (\<exists>msg. post_cart empty_db 7 1 0 50 = (Inl (HttpError 400 msg), empty_db)) \<and>
   put_cart empty_db 7 1 0 = (Inl (HttpError 400 ''Quantity must be at least 1''), empty_db)"
proof -
  let ?rs = "[POST_products ''Pen'' ''Blue ink'' ''Office'' (3 / 2) 4 10,
      POST_cart 7 1 (3 / 2) 50, PUT_cart 7 1 5, PUT_cart 7 1 0, POST_cart 7 1 3 51]"
  have h1: "quantities_ok (cartItems empty_db)" by (simp add: empty_db_def quantities_ok_def)
  have h2: "(0::rat) < 1" by simp
  from cart_quantities_at_least_one [of empty_db ?rs 0 7 1 50 1] h1 h2
  show ?thesis by simp
qed

text \<open>A request for one and a half pens is accepted, and stored as it is.\<close>

theorem fractional_quantity_stored:
  "post_cart shop 7 1 (3 / 2) 50 =
     (Inr (Response 201 (MessageItem ''Product added to cart''
        \<lparr>item_id = 1, item_user = 7, item_product = Some pen, item_quantity = 3 / 2,
         item_addedAt = 50\<rparr>)),
      shop\<lparr>cartItems := [\<lparr>oid = 1, user = 7, product = 1, quantity = 3 / 2, addedAt = 50\<rparr>]\<rparr>) \<and>
   \<not> is_integer (3 / 2)"
proof
  show "post_cart shop 7 1 (3 / 2) 50 =
     (Inr (Response 201 (MessageItem ''Product added to cart''
        \<lparr>item_id = 1, item_user = 7, item_product = Some pen, item_quantity = 3 / 2,
         item_addedAt = 50\<rparr>)),
      shop\<lparr>cartItems := [\<lparr>oid = 1, user = 7, product = 1, quantity = 3 / 2, addedAt = 50\<rparr>]\<rparr>)"
    by (simp add: examples post_cart_def validateCartItem_def parseInt_def Product_findOne_def
        post_cart_handler_def CartItem_findOne_def CartItem_save_def cartItemSchema_valid_def
        new_ObjectId_def toObject_with_def)
  have "\<lfloor>(3::rat) / 2\<rfloor> = 1" by (simp add: floor_eq_iff)
  then show "\<not> is_integer (3 / 2)" by (simp add: is_integer_def)
qed

subsection \<open>The catalog is only read\<close>

text \<open>
  C9. None of ListCart, AddItem, UpdateItem and RemoveItem changes the product collection,
  whatever its arguments and whatever it answers: no field of a product, the stock
  included, is written.
\<close>

theorem cart_handlers_keep_products:
  "products (snd (get_cart s u)) = products s \<and>
   products (snd (post_cart s u p q t)) = products s \<and>
   products (snd (put_cart s u i q)) = products s \<and>
   products (snd (delete_cart s u i)) = products s"
  by (simp add: cart_handlers_products)

theorem cart_handlers_keep_products_witness:
  "products (snd (get_cart shop_with_carts 1)) = [pen, lamp] \<and>
   products (snd (post_cart shop_with_carts 1 1 7 50)) = [pen, lamp] \<and>
   products (snd (put_cart shop_with_carts 1 1 7)) = [pen, lamp] \<and>
   products (snd (delete_cart shop_with_carts 1 1)) = [pen, lamp]"
  using cart_handlers_keep_products [of shop_with_carts 1 1 7 50 1]
  by (simp add: shop_with_carts_def)

subsection \<open>An item whose product has left the catalog\<close>

text \<open>
  C10. For a cart item that the caller owns and whose product id resolves to no catalog
  product, UpdateItem with a quantity of at least 1 answers with the status 500 of the
  \<^verbatim>\<open>catch\<close> branch (StorageError), not with the status 404, and changes nothing.
\<close>

theorem put_cart_missing_product:
  assumes "CartItem_findById (cartItems s) i = Some c" and "user c = u" and "1 \<le> q"
    and "Product_findOne (products s) (product c) = None"
  shows "put_cart s u i q = (Inl (HttpError 500 ''Server error''), s)"
  using assms by (simp add: put_cart_def)

theorem put_cart_missing_product_witness:
  "CartItem_findById (cartItems shop_with_carts) 3 =
     Some \<lparr>oid = 3, user = 1, product = 9, quantity = 1, addedAt = 102\<rparr> \<and>
   Product_findOne (products shop_with_carts) 9 = None \<and>
   put_cart shop_with_carts 1 3 1 = (Inl (HttpError 500 ''Server error''), shop_with_carts)"
proof -
  let ?c = "\<lparr>oid = 3, user = 1, product = 9, quantity = 1, addedAt = 102\<rparr>"
  have h1: "CartItem_findById (cartItems shop_with_carts) 3 = Some ?c"
    by (simp add: examples CartItem_findById_def)
  have h2: "user ?c = 1" by simp
  have h3: "(1::rat) \<le> 1" by simp
  have h4: "Product_findOne (products shop_with_carts) (product ?c) = None"
    by (simp add: examples Product_findOne_def)
  from put_cart_missing_product [OF h1 h2 h3 h4] h1 h4
  show ?thesis by simp
qed

end
